theory Spec2Isabelle
  imports Main "HOL-Library.Char_ord" "HOL-Library.List_Lexorder"
begin

section \<open>Values, dictionaries and errors\<close>

text \<open>
  Header values and the elements of a container attribute are scalars, numeric or text.
  An attribute holds an array of scalars: the writer stores \<^verbatim>\<open>np.array([value])\<close>, the
  reader takes element \<^verbatim>\<open>[0]\<close>.
\<close>

datatype scalar = Num int | Txt string

datatype error =
    KeyError string
  | IndexError
  | ValueError
  | TypeError
  | AttributeError
  | IOError
  | RuntimeError string

text \<open>
  A Python dict is an association list with unique keys. Assignment \<^verbatim>\<open>d[k] = v\<close>
  replaces the value of an existing key where it stands and puts a new key at the end;
  \<^verbatim>\<open>d.items()\<close> enumerates the list as it is, in insertion order, which is the order the
  language defines for a dict from version 3.7 on (older interpreters leave the order of
  a dict unspecified). The source never sorts a dict, so the order of \<^verbatim>\<open>items()\<close> is the
  order the dict itself provides.
\<close>

primrec setitem :: "'k \<Rightarrow> 'v \<Rightarrow> ('k \<times> 'v) list \<Rightarrow> ('k \<times> 'v) list" where
  "setitem k v [] = [(k, v)]"
| "setitem k v (p # ps) = (if fst p = k then (k, v) # ps else p # setitem k v ps)"

definition getitem :: "(string \<times> 'v) list \<Rightarrow> string \<Rightarrow> error + 'v" where
  "getitem d k = (case map_of d k of None \<Rightarrow> Inl (KeyError k) | Some v \<Rightarrow> Inr v)"

definition first_elem :: "'a list \<Rightarrow> error + 'a" where
  "first_elem xs = (case xs of [] \<Rightarrow> Inl IndexError | x # _ \<Rightarrow> Inr x)"

type_synonym attrs = "(string \<times> scalar list) list"

type_synonym header = "(string \<times> scalar) list"

section \<open>Keyword classification and write_headers\<close>

definition restricted_hdf_keywords :: "string set" where
  "restricted_hdf_keywords = {''CLASS'', ''SUBCLASS'', ''POSITION''}"

definition endswith :: "string \<Rightarrow> string \<Rightarrow> bool" where
  "endswith s suf \<longleftrightarrow> length suf \<le> length s \<and> drop (length s - length suf) s = suf"

text \<open>
  The test of \<^verbatim>\<open>write_headers\<close> that decides whether a header key is skipped. The tables
  \<^verbatim>\<open>restricted_table_keywords\<close> and \<^verbatim>\<open>restricted_header_keywords\<close> are imported from a
  module that is not part of the sources at hand; they are the parameters \<open>rt\<close> and
  \<open>rh\<close>.
\<close>

definition is_restricted :: "string set \<Rightarrow> string set \<Rightarrow> string \<Rightarrow> bool" where
  "is_restricted rt rh key =
     (let is_comment = endswith key ''_COMMENT'';
          is_table = take 5 key \<in> rt;
          is_table = (is_table \<or> take 4 key = ''TDIM'' \<or> key = ''TFIELDS'');
          is_basic = key \<in> rh;
          is_hdf = key \<in> restricted_hdf_keywords
      in is_comment \<or> is_table \<or> is_basic \<or> is_hdf)"

text \<open>\<^verbatim>\<open>try: comment = idiobj.header[key+"_COMMENT"]  except: comment = ''\<close>\<close>

definition header_comment :: "header \<Rightarrow> string \<Rightarrow> scalar" where
  "header_comment hdr key =
     (case map_of hdr (key @ ''_COMMENT'') of Some c \<Rightarrow> c | None \<Rightarrow> Txt '''')"

text \<open>The body of the loop of \<^verbatim>\<open>write_headers\<close> for one item of the header.\<close>

definition write_header_entry ::
  "string set \<Rightarrow> string set \<Rightarrow> header \<Rightarrow> string \<times> scalar \<Rightarrow> attrs \<Rightarrow> attrs" where
  "write_header_entry rt rh hdr kv a =
     (let key = fst kv; val = snd kv; comment = header_comment hdr key
      in if is_restricted rt rh key then a
         else setitem (key @ ''_COMMENT'') [comment] (setitem key [val] a))"

definition write_headers :: "string set \<Rightarrow> string set \<Rightarrow> header \<Rightarrow> attrs \<Rightarrow> attrs" where
  "write_headers rt rh hdr a = fold (write_header_entry rt rh hdr) hdr a"

text \<open>
  The header loop of \<^verbatim>\<open>read_hdf\<close>: every attribute of the group whose key is not
  container-reserved goes into \<^verbatim>\<open>h_vals\<close>, with element 0 of its array as the value.
\<close>

fun read_header :: "attrs \<Rightarrow> header \<Rightarrow> error + header" where
  "read_header [] h_vals = Inr h_vals"
| "read_header ((key, vals) # rest) h_vals =
     (if key \<notin> restricted_hdf_keywords
      then (case first_elem vals of
              Inl e \<Rightarrow> Inl e
            | Inr v \<Rightarrow> read_header rest (setitem key v h_vals))
      else read_header rest h_vals)"

section \<open>The unit list and the container\<close>

text \<open>
  Array data: a numeric array with its shape, an array of text, or a composite array
  whose named fields are arrays (the legacy table layout). \<^verbatim>\<open>ndim\<close> is the number of
  axes; text and composite arrays are one-dimensional.
\<close>

record ndarray =
  shape :: "nat list"
  elems :: "int list"

datatype dsdata = Numeric ndarray | Text "string list" | Compound "(string \<times> dsdata) list"

fun ndim :: "dsdata \<Rightarrow> nat" where
  "ndim (Numeric a) = length (shape a)"
| "ndim (Text ls) = 1"
| "ndim (Compound fs) = 1"

text \<open>
  \<^verbatim>\<open>np.min\<close> and \<^verbatim>\<open>np.max\<close> raise ValueError on an array without elements. Elements are
  integers here: floating point with NaN is outside the model.
\<close>

fun np_min :: "dsdata \<Rightarrow> error + int" where
  "np_min (Numeric a) = (case elems a of [] \<Rightarrow> Inl ValueError | x # xs \<Rightarrow> Inr (fold min xs x))"
| "np_min (Text ls) = Inl TypeError"
| "np_min (Compound fs) = Inl TypeError"

fun np_max :: "dsdata \<Rightarrow> error + int" where
  "np_max (Numeric a) = (case elems a of [] \<Rightarrow> Inl ValueError | x # xs \<Rightarrow> Inr (fold max xs x))"
| "np_max (Text ls) = Inl TypeError"
| "np_max (Compound fs) = Inl TypeError"

text \<open>
  Modelled from the spec: the classes of the in-memory model (\<^verbatim>\<open>IdiHdulist\<close>,
  \<^verbatim>\<open>IdiTableHdu\<close>, \<^verbatim>\<open>IdiImageHdu\<close>, \<^verbatim>\<open>IdiPrimaryHdu\<close>, \<^verbatim>\<open>IdiColumn\<close>), which are defined
  outside the sources at hand. By the spec a unit has a header, optional comment and
  history text, and is a Primary unit, a Table with an ordered sequence of named
  columns, or an Image; the unit list is an ordered dict from unit name to unit.
\<close>

record idi_column =
  col_data :: dsdata
  col_unit :: "scalar option"

datatype payload = Primary | Table "(string \<times> idi_column) list" | Image dsdata

record idi_hdu =
  hdu_header :: header
  hdu_comment :: "string list option"
  hdu_history :: "string list option"
  hdu_payload :: payload

type_synonym hdulist = "(string \<times> idi_hdu) list"

text \<open>The argument of \<^verbatim>\<open>export_hdf\<close>: a unit list, or a Python value of any other type.\<close>

datatype pyobj = IdiHdulist hdulist | OtherObject

text \<open>
  The container: a file has attributes and named children; a child is a group (with
  attributes and children of its own) or a dataset (with attributes and array data).
  Children are kept in creation order; the order in which the container lists them
  (\<^verbatim>\<open>keys()\<close>) is a property of the container, the parameter \<open>native\<close> of the reader.
\<close>

datatype node = Group attrs "(string \<times> node) list" | Dataset attrs dsdata

record h5file =
  file_attrs :: attrs
  file_children :: "(string \<times> node) list"

fun node_attrs :: "node \<Rightarrow> attrs" where
  "node_attrs (Group a cs) = a"
| "node_attrs (Dataset a d) = a"

datatype handle = NotOpened | Opened | Closed

text \<open>Python truth value and \<^verbatim>\<open>str\<close> of a scalar; \<^verbatim>\<open>"%i" % n\<close> for a natural number.\<close>

fun str_nat :: "nat \<Rightarrow> string" where
  "str_nat n = (if n < 10 then [''0123456789'' ! n]
                else str_nat (n div 10) @ [''0123456789'' ! (n mod 10)])"

definition str_int :: "int \<Rightarrow> string" where
  "str_int i = (if i < 0 then ''-'' @ str_nat (nat (- i)) else str_nat (nat i))"

fun str_of :: "scalar \<Rightarrow> string" where
  "str_of (Txt s) = s"
| "str_of (Num i) = str_int i"

fun truthy :: "scalar option \<Rightarrow> bool" where
  "truthy None = False"
| "truthy (Some (Txt s)) = (s \<noteq> [])"
| "truthy (Some (Num i)) = (i \<noteq> 0)"

section \<open>export_hdf\<close>

text \<open>
  Modelled from the spec: \<^verbatim>\<open>bs.create_dataset(group, name, data, **kwargs)\<close>, a function
  of a module outside the sources at hand. The spec has it as the container capability
  create-typed-dataset(name, array, compression-options): it gives a new dataset of that
  array, without attributes, as a child of that name; as in the container library, a name
  that the group already has is a ValueError. Compression options do not change the
  stored array and are left out. The first argument is the list of the group's children.
\<close>

definition create_dataset ::
  "(string \<times> node) list \<Rightarrow> string \<Rightarrow> dsdata \<Rightarrow> error + node" where
  "create_dataset cs name d =
     (if name \<in> fst ` set cs then Inl ValueError else Inr (Dataset [] d))"

text \<open>
  The column loop of the per-column layout (\<^verbatim>\<open>table_version1\<close> is the constant False,
  so the composite-table branch of the writer is never taken). The result carries the
  children written so far, also when a column fails.
\<close>

fun write_columns ::
  "(string \<times> idi_column) list \<Rightarrow> int \<Rightarrow> (string \<times> node) list
     \<Rightarrow> (string \<times> node) list \<times> (error + unit)" where
  "write_columns [] col_num cs = (cs, Inr ())"
| "write_columns ((dkey, dval) # rest) col_num cs =
     (case create_dataset cs dkey (col_data dval) of
        Inl e \<Rightarrow> (cs, Inl e)
      | Inr dset \<Rightarrow>
         (let a = setitem ''CLASS'' [Txt ''COLUMN''] (node_attrs dset);
              a = setitem ''COLUMN_ID'' [Num col_num] a;
              a = (if truthy (col_unit dval)
                   then setitem ''UNITS'' [Txt (str_of (the (col_unit dval)))] a else a)
          in write_columns rest (col_num + 1) (cs @ [(dkey, Dataset a (col_data dval))])))"

text \<open>
  The image branch: the DATA dataset, the first child of the unit's new group, with its
  attributes.
\<close>

definition write_image :: "dsdata \<Rightarrow> node \<times> (error + unit)" where
  "write_image d =
     (case create_dataset [] ''DATA'' d of
        Inl e \<Rightarrow> (Dataset [] d, Inl e)
      | Inr dset \<Rightarrow>
         (let a = setitem ''CLASS'' [Txt ''IMAGE''] (node_attrs dset);
              a = setitem ''IMAGE_VERSION'' [Txt ''1.2''] a
          in if ndim d = 2
             then (let a = setitem ''IMAGE_SUBCLASS'' [Txt ''IMAGE_GRAYSCALE''] a
                   in case np_min d of
                        Inl e \<Rightarrow> (Dataset a d, Inl e)
                      | Inr lo \<Rightarrow>
                         (case np_max d of
                            Inl e \<Rightarrow> (Dataset a d, Inl e)
                          | Inr hi \<Rightarrow>
                              (Dataset (setitem ''IMAGE_MINMAXRANGE'' [Num lo, Num hi] a) d,
                               Inr ())))
             else (Dataset a d, Inr ())))"

text \<open>The dispatch on the unit's type: the children of the unit's group that hold its data.\<close>

fun write_data :: "payload \<Rightarrow> (string \<times> node) list \<times> (error + unit)" where
  "write_data (Table cols) =
     (case write_columns cols 0 [] of
        (cs, r) \<Rightarrow> ([(''DATA'', Group (setitem ''CLASS'' [Txt ''DATA_GROUP''] []) cs)], r))"
| "write_data (Image d) = (case write_image d of (n, r) \<Rightarrow> ([(''DATA'', n)], r))"
| "write_data Primary = ([], Inr ())"

text \<open>\<^verbatim>\<open>if idi_hdu[gkey].comment: gg.create_dataset("COMMENT", data=...)\<close>, and HISTORY alike.\<close>

definition write_text :: "string \<Rightarrow> string list option \<Rightarrow> (string \<times> node) list" where
  "write_text name t =
     (case t of None \<Rightarrow> [] | Some ls \<Rightarrow> if ls = [] then [] else [(name, Dataset [] (Text ls))])"

text \<open>
  The body of the loop over the units, for the unit \<open>gkey\<close> with position \<open>hdu_id\<close>.
  When the data of the unit fails, the group stays in the file as far as it was written.
\<close>

definition write_hdu ::
  "string set \<Rightarrow> string set \<Rightarrow> int \<Rightarrow> string \<times> idi_hdu \<Rightarrow> h5file \<Rightarrow> h5file \<times> (error + unit)" where
  "write_hdu rt rh hdu_id kv h =
     (let gkey = fst kv; u = snd kv in
      if gkey \<in> fst ` set (file_children h) then (h, Inl ValueError)
      else
        let a = setitem ''CLASS'' [Txt ''HDU''] [];
            a = setitem ''POSITION'' [Num hdu_id] a
        in case write_data (hdu_payload u) of
             (cs, Inl e) \<Rightarrow>
               (h\<lparr>file_children := file_children h @ [(gkey, Group a cs)]\<rparr>, Inl e)
           | (cs, Inr _) \<Rightarrow>
               (let a = write_headers rt rh (hdu_header u) a;
                    cs = cs @ write_text ''COMMENT'' (hdu_comment u)
                            @ write_text ''HISTORY'' (hdu_history u)
                in (h\<lparr>file_children := file_children h @ [(gkey, Group a cs)]\<rparr>, Inr ())))"

fun write_hdus ::
  "string set \<Rightarrow> string set \<Rightarrow> hdulist \<Rightarrow> int \<Rightarrow> h5file \<Rightarrow> h5file \<times> (error + unit)" where
  "write_hdus rt rh [] hdu_id h = (h, Inr ())"
| "write_hdus rt rh (kv # rest) hdu_id h =
     (case write_hdu rt rh (hdu_id + 1) kv h of
        (h', Inl e) \<Rightarrow> (h', Inl e)
      | (h', Inr _) \<Rightarrow> write_hdus rt rh rest (hdu_id + 1) h')"

text \<open>
  The file system maps a path to the container stored there. \<^verbatim>\<open>h5py.File(outfile,
  mode='w')\<close> creates the file and truncates one that exists: the export starts from the
  empty container whatever was at the path. The handle is closed by the last statement
  only; no statement closes it when an exception passes through.
\<close>

record export_out =
  ex_fs :: "string \<rightharpoonup> h5file"
  ex_handle :: handle
  ex_result :: "error + unit"

definition new_file :: h5file where
  "new_file = \<lparr>file_attrs = [], file_children = []\<rparr>"

definition export_hdf ::
  "string set \<Rightarrow> string set \<Rightarrow> pyobj \<Rightarrow> (string \<rightharpoonup> h5file) \<Rightarrow> string \<Rightarrow> export_out" where
  "export_hdf rt rh idi_hdu fs outfile =
     (case idi_hdu of
        OtherObject \<Rightarrow>
          \<lparr>ex_fs = fs, ex_handle = NotOpened,
           ex_result = Inl (RuntimeError ''This function must be run on an IdiHdulist object'')\<rparr>
      | IdiHdulist units \<Rightarrow>
          (let h = new_file;
               h = h\<lparr>file_attrs := setitem ''CLASS'' [Txt ''HDFITS''] (file_attrs h)\<rparr>
           in case write_hdus rt rh units 0 h of
                (h', Inl e) \<Rightarrow> \<lparr>ex_fs = fs(outfile \<mapsto> h'), ex_handle = Opened, ex_result = Inl e\<rparr>
              | (h', Inr _) \<Rightarrow> \<lparr>ex_fs = fs(outfile \<mapsto> h'), ex_handle = Closed, ex_result = Inr ()\<rparr>))"

section \<open>read_hdf\<close>

text \<open>
  The format check at the top of \<^verbatim>\<open>read_hdf\<close>, with the warnings it emits. Without a
  CLASS attribute \<^verbatim>\<open>cls\<close> stays the string \<^verbatim>\<open>"None"\<close>, whose element 0 is \<^verbatim>\<open>"N"\<close>.
\<close>

definition check_class :: "attrs \<Rightarrow> string list \<times> (error + unit)" where
  "check_class a =
     (case map_of a ''CLASS'' of
        None \<Rightarrow> ([''No CLASS defined in HDF5 file.'', ''CLASS N: Not an HDFITS file.''], Inr ())
      | Some cls \<Rightarrow>
          if Txt ''HDFITS'' \<notin> set cls
          then (case first_elem cls of
                  Inl e \<Rightarrow> ([], Inl e)
                | Inr c \<Rightarrow> ([''CLASS '' @ str_of c @ '': Not an HDFITS file.''], Inr ()))
          else ([], Inr ()))"

text \<open>
  The two order loops of the reader have one shape: for every listed child, element 0 of
  its tag attribute (\<^verbatim>\<open>POSITION\<close> for units, \<^verbatim>\<open>COLUMN_ID\<close> for columns) becomes a key of a
  dict whose value is the child's name. A child without the tag is a KeyError.
\<close>

fun tag_order ::
  "string \<Rightarrow> (string \<times> node) list \<Rightarrow> string list \<Rightarrow> (scalar \<times> string) list
     \<Rightarrow> error + (scalar \<times> string) list" where
  "tag_order tag cs [] order = Inr order"
| "tag_order tag cs (name # rest) order =
     (case getitem cs name of
        Inl e \<Rightarrow> Inl e
      | Inr n \<Rightarrow>
         (case getitem (node_attrs n) tag of
            Inl e \<Rightarrow> Inl e
          | Inr a \<Rightarrow>
             (case first_elem a of
                Inl e \<Rightarrow> Inl e
              | Inr pos \<Rightarrow> tag_order tag cs rest (setitem pos name order))))"

text \<open>
  \<^verbatim>\<open>node[:]\<close> reads the array of a dataset; \<^verbatim>\<open>node.keys()\<close> and the lookup of a child
  need a group. Comparing a class attribute with a string is elementwise; the truth value
  of the result is defined for at most one element.
\<close>

fun slice_all :: "node \<Rightarrow> error + dsdata" where
  "slice_all (Dataset a d) = Inr d"
| "slice_all (Group a cs) = Inl TypeError"

fun children_of :: "node \<Rightarrow> error + (string \<times> node) list" where
  "children_of (Group a cs) = Inr cs"
| "children_of (Dataset a d) = Inl ValueError"

fun keys_of :: "node \<Rightarrow> error + (string \<times> node) list" where
  "keys_of (Group a cs) = Inr cs"
| "keys_of (Dataset a d) = Inl AttributeError"

fun class_is :: "scalar list \<Rightarrow> string \<Rightarrow> error + bool" where
  "class_is [] s = Inr False"
| "class_is [x] s = Inr (x = Txt s)"
| "class_is (x # y # zs) s = Inl ValueError"

fun text_of :: "node \<Rightarrow> string list" where
  "text_of (Dataset a (Text ls)) = ls"
| "text_of n = []"

text \<open>
  Modelled from the spec: \<^verbatim>\<open>data.add_column(idi_col)\<close>, a method of the table class,
  which is outside the sources at hand. By the spec column names are unique within a
  Table and columns keep their insertion order; a second column of the same name is a
  ValueError.
\<close>

definition add_column ::
  "string \<times> idi_column \<Rightarrow> (string \<times> idi_column) list \<Rightarrow> error + (string \<times> idi_column) list" where
  "add_column c data = (if fst c \<in> fst ` set data then Inl ValueError else Inr (data @ [c]))"

text \<open>The column loop of the per-column layout, over the items of \<^verbatim>\<open>col_order\<close>.\<close>

fun read_columns ::
  "(string \<times> node) list \<Rightarrow> (scalar \<times> string) list \<Rightarrow> (string \<times> idi_column) list
     \<Rightarrow> error + (string \<times> idi_column) list" where
  "read_columns cs [] data = Inr data"
| "read_columns cs ((pos, col_name) # rest) data =
     (case getitem cs col_name of
        Inl e \<Rightarrow> Inl e
      | Inr col_dset \<Rightarrow>
         (let col_units = (case map_of (node_attrs col_dset) ''UNITS'' of
                             Some (u # _) \<Rightarrow> Some u | _ \<Rightarrow> None)
          in case getitem (node_attrs col_dset) ''COLUMN_ID'' of
               Inl e \<Rightarrow> Inl e
             | Inr a \<Rightarrow>
                (case first_elem a of
                   Inl e \<Rightarrow> Inl e
                 | Inr col_num \<Rightarrow>
                    (case slice_all col_dset of
                       Inl e \<Rightarrow> Inl e
                     | Inr d \<Rightarrow>
                        (case add_column (col_name, \<lparr>col_data = d, col_unit = col_units\<rparr>) data of
                           Inl e \<Rightarrow> Inl e
                         | Inr data' \<Rightarrow> read_columns cs rest data')))))"

definition read_data_group ::
  "(string list \<Rightarrow> string list) \<Rightarrow> node \<Rightarrow> error + (string \<times> idi_column) list" where
  "read_data_group native dnode =
     (case keys_of dnode of
        Inl e \<Rightarrow> Inl e
      | Inr cs \<Rightarrow>
         (case tag_order ''COLUMN_ID'' cs (native (map fst cs)) [] of
            Inl e \<Rightarrow> Inl e
          | Inr col_order \<Rightarrow> read_columns cs col_order []))"

text \<open>
  The column loop of the composite layout: field \<open>col_num\<close> of the dataset is named by
  the attribute \<^verbatim>\<open>FIELD_<col_num>_NAME\<close>, its unit by \<^verbatim>\<open>FIELD_<col_num>_UNITS\<close>.
\<close>

fun read_fields ::
  "attrs \<Rightarrow> (string \<times> dsdata) list \<Rightarrow> nat list \<Rightarrow> (string \<times> idi_column) list
     \<Rightarrow> error + (string \<times> idi_column) list" where
  "read_fields a fs [] data = Inr data"
| "read_fields a fs (col_num # rest) data =
     (case getitem a (''FIELD_'' @ str_nat col_num @ ''_NAME'') of
        Inl e \<Rightarrow> Inl e
      | Inr ns \<Rightarrow>
         (case first_elem ns of
            Inl e \<Rightarrow> Inl e
          | Inr col_name \<Rightarrow>
             (case getitem a (''FIELD_'' @ str_nat col_num @ ''_UNITS'') of
                Inl e \<Rightarrow> Inl e
              | Inr us \<Rightarrow>
                 (case first_elem us of
                    Inl e \<Rightarrow> Inl e
                  | Inr col_units \<Rightarrow>
                     (case map_of fs (str_of col_name) of
                        None \<Rightarrow> Inl ValueError
                      | Some dset \<Rightarrow>
                         (case add_column (str_of col_name,
                                 \<lparr>col_data = dset, col_unit = Some col_units\<rparr>) data of
                            Inl e \<Rightarrow> Inl e
                          | Inr data' \<Rightarrow> read_fields a fs rest data'))))))"

fun read_table :: "node \<Rightarrow> error + (string \<times> idi_column) list" where
  "read_table (Dataset a (Compound fs)) = read_fields a fs [0 ..< length fs] []"
| "read_table (Dataset a d) = Inl TypeError"
| "read_table (Group a cs) = Inl AttributeError"

text \<open>
  Modelled from the spec: the methods \<^verbatim>\<open>add_primary_hdu\<close>, \<^verbatim>\<open>add_table_hdu\<close> and
  \<^verbatim>\<open>add_image_hdu\<close> of the unit list, whose class is outside the sources at hand. By the
  spec they attach the unit to the list under its group name; the list is a dict keyed
  by name, so \<^verbatim>\<open>hdulist[gname]\<close> of a name that was not attached is a KeyError.
\<close>

definition add_hdu ::
  "string \<Rightarrow> header \<Rightarrow> payload \<Rightarrow> string list option \<Rightarrow> string list option \<Rightarrow> hdulist
     \<Rightarrow> hdulist" where
  "add_hdu gname h_vals p h_history h_comment hdulist =
     setitem gname \<lparr>hdu_header = h_vals, hdu_comment = h_comment,
                    hdu_history = h_history, hdu_payload = p\<rparr> hdulist"

text \<open>
  The dispatch on the DATA child of a group: the branch taken attaches a unit, the last
  branch only warns. The result is the warnings so far and the unit list or the error.
\<close>

definition dispatch_data ::
  "(string list \<Rightarrow> string list) \<Rightarrow> string \<Rightarrow> (string \<times> node) list \<Rightarrow> header
     \<Rightarrow> string list option \<Rightarrow> string list option \<Rightarrow> string list \<Rightarrow> hdulist
     \<Rightarrow> string list \<times> (error + hdulist)" where
  "dispatch_data native gname cs h_vals h_history h_comment ws hdulist =
     (case map_of cs ''DATA'' of
        None \<Rightarrow> (ws, Inr (add_hdu gname h_vals Primary h_history h_comment hdulist))
      | Some dnode \<Rightarrow>
         (case getitem (node_attrs dnode) ''CLASS'' of
            Inl e \<Rightarrow> (ws, Inl e)
          | Inr cls \<Rightarrow>
             (case class_is cls ''TABLE'' of
                Inl e \<Rightarrow> (ws, Inl e)
              | Inr is_table \<Rightarrow>
                 if is_table then
                   (case read_table dnode of
                      Inl e \<Rightarrow> (ws, Inl e)
                    | Inr data \<Rightarrow>
                        (ws, Inr (add_hdu gname h_vals (Table data) h_history h_comment hdulist)))
                 else if class_is cls ''DATA_GROUP'' = Inr True then
                   (case read_data_group native dnode of
                      Inl e \<Rightarrow> (ws, Inl e)
                    | Inr data \<Rightarrow>
                        (ws, Inr (add_hdu gname h_vals (Table data) h_history h_comment hdulist)))
                 else if class_is cls ''IMAGE'' = Inr True then
                   (case slice_all dnode of
                      Inl e \<Rightarrow> (ws, Inl e)
                    | Inr d \<Rightarrow>
                        (ws, Inr (add_hdu gname h_vals (Image d) h_history h_comment hdulist)))
                 else (ws @ [''Cannot understand data class of '' @ gname], Inr hdulist))))"

text \<open>
  The body of the loop over the items of \<^verbatim>\<open>hdu_order\<close>: header, comment and history of
  the group, the dispatch, and last the statement \<^verbatim>\<open>pp.debug(hdulist[gname].header)\<close>,
  whose argument is evaluated whatever the verbosity.
\<close>

definition read_group ::
  "(string list \<Rightarrow> string list) \<Rightarrow> (string \<times> node) list \<Rightarrow> string \<Rightarrow> string list \<Rightarrow> hdulist
     \<Rightarrow> string list \<times> (error + hdulist)" where
  "read_group native groups gname ws hdulist =
     (case getitem groups gname of
        Inl e \<Rightarrow> (ws, Inl e)
      | Inr grp \<Rightarrow>
         (case read_header (node_attrs grp) [] of
            Inl e \<Rightarrow> (ws, Inl e)
          | Inr h_vals \<Rightarrow>
             (case children_of grp of
                Inl e \<Rightarrow> (ws, Inl e)
              | Inr cs \<Rightarrow>
                 (let h_comment = map_option text_of (map_of cs ''COMMENT'');
                      h_history = map_option text_of (map_of cs ''HISTORY'')
                  in case dispatch_data native gname cs h_vals h_history h_comment ws hdulist of
                       (ws', Inl e) \<Rightarrow> (ws', Inl e)
                     | (ws', Inr hdulist') \<Rightarrow>
                        (case getitem hdulist' gname of
                           Inl e \<Rightarrow> (ws', Inl e)
                         | Inr u \<Rightarrow> (ws', Inr hdulist'))))))"

fun read_groups ::
  "(string list \<Rightarrow> string list) \<Rightarrow> (string \<times> node) list \<Rightarrow> (scalar \<times> string) list
     \<Rightarrow> string list \<Rightarrow> hdulist \<Rightarrow> string list \<times> (error + hdulist)" where
  "read_groups native groups [] ws hdulist = (ws, Inr hdulist)"
| "read_groups native groups ((pos, gname) # rest) ws hdulist =
     (case read_group native groups gname ws hdulist of
        (ws', Inl e) \<Rightarrow> (ws', Inl e)
      | (ws', Inr hdulist') \<Rightarrow> read_groups native groups rest ws' hdulist')"

text \<open>
  \<^verbatim>\<open>read_hdf\<close>: the file is opened (an IOError when there is none), the format is
  checked, the order of the units is read from the POSITION tags into the dict
  \<^verbatim>\<open>hdu_order\<close>, and the groups are read in the order of the items of that dict. The
  handle is closed by the statement before \<^verbatim>\<open>return\<close> only.
\<close>

record read_out =
  rd_warnings :: "string list"
  rd_handle :: handle
  rd_result :: "error + hdulist"

definition read_hdf ::
  "(string list \<Rightarrow> string list) \<Rightarrow> (string \<rightharpoonup> h5file) \<Rightarrow> string \<Rightarrow> read_out" where
  "read_hdf native fs infile =
     (case fs infile of
        None \<Rightarrow> \<lparr>rd_warnings = [], rd_handle = NotOpened, rd_result = Inl IOError\<rparr>
      | Some h \<Rightarrow>
         (case check_class (file_attrs h) of
            (ws, Inl e) \<Rightarrow> \<lparr>rd_warnings = ws, rd_handle = Opened, rd_result = Inl e\<rparr>
          | (ws, Inr _) \<Rightarrow>
             (case tag_order ''POSITION'' (file_children h)
                     (native (map fst (file_children h))) [] of
                Inl e \<Rightarrow> \<lparr>rd_warnings = ws, rd_handle = Opened, rd_result = Inl e\<rparr>
              | Inr hdu_order \<Rightarrow>
                 (case read_groups native (file_children h) hdu_order ws [] of
                    (ws', Inl e) \<Rightarrow> \<lparr>rd_warnings = ws', rd_handle = Opened, rd_result = Inl e\<rparr>
                  | (ws', Inr hdulist) \<Rightarrow>
                      \<lparr>rd_warnings = ws', rd_handle = Closed, rd_result = Inr hdulist\<rparr>))))"

text \<open>
  The header a unit comes back with when every key of its header was written: each
  entry followed by its paired comment entry, the comment being the empty string.
\<close>

definition with_comments :: "header \<Rightarrow> header" where
  "with_comments hdr = concat (map (\<lambda>(k, v). [(k, v), (k @ ''_COMMENT'', Txt '''')]) hdr)"

section \<open>Example unit lists and containers\<close>




text \<open>An image of shape 0 by 3: two axes and no element.\<close>

definition empty_image :: idi_hdu where
  "empty_image = \<lparr>hdu_header = [], hdu_comment = None, hdu_history = None,
                  hdu_payload = Image (Numeric \<lparr>shape = [0, 3], elems = []\<rparr>)\<rparr>"

text \<open>
  A container with a second top-level group that was not written by \<^verbatim>\<open>export_hdf\<close> and
  has no POSITION tag, and a container whose only unit has a DATA node of class FOO.
\<close>

definition foreign_file :: h5file where
  "foreign_file =
     \<lparr>file_attrs = [(''CLASS'', [Txt ''HDFITS''])],
      file_children =
        [(''PRIMARY'', Group [(''CLASS'', [Txt ''HDU'']), (''POSITION'', [Num 1])] []),
         (''NOTES'', Group [(''AUTHOR'', [Txt ''Smith''])] [])]\<rparr>"

definition foo_file :: h5file where
  "foo_file =
     \<lparr>file_attrs = [(''CLASS'', [Txt ''HDFITS''])],
      file_children =
        [(''SRC1'', Group [(''CLASS'', [Txt ''HDU'']), (''POSITION'', [Num 1]),
                           (''OBSERVER'', [Txt ''Smith'']), (''OBSERVER_COMMENT'', [Txt ''''])]
                     [(''DATA'', Dataset [(''CLASS'', [Txt ''FOO''])]
                                   (Numeric \<lparr>shape = [3], elems = [1, 2, 3]\<rparr>))])]\<rparr>"

section \<open>Dictionaries and keys\<close>

lemma map_of_setitem: "map_of (setitem k v al) = (map_of al)(k \<mapsto> v)"
  by (induction al) (auto simp: fun_eq_iff)

lemma setitem_fresh: "k \<notin> fst ` set al \<Longrightarrow> setitem k v al = al @ [(k, v)]"
  by (induction al) auto

lemma endswith_append: "endswith (k @ suf) suf"
  by (simp add: endswith_def)

lemma restricted_comment: "is_restricted rt rh (k @ ''_COMMENT'')"
  unfolding is_restricted_def Let_def using endswith_append[of k "''_COMMENT''"] by simp

lemma restricted_hdf: "k \<in> restricted_hdf_keywords \<Longrightarrow> is_restricted rt rh k"
  by (simp add: is_restricted_def)

lemma comment_not_hdf: "k @ ''_COMMENT'' \<notin> restricted_hdf_keywords"
proof
  assume "k @ ''_COMMENT'' \<in> restricted_hdf_keywords"
  then have "endswith ''CLASS'' ''_COMMENT'' \<or> endswith ''SUBCLASS'' ''_COMMENT''
             \<or> endswith ''POSITION'' ''_COMMENT''"
    using endswith_append[of k "''_COMMENT''"] by (auto simp: restricted_hdf_keywords_def)
  then show False by (simp add: endswith_def)
qed

section \<open>Header keys that are not written\<close>

text \<open>
  An attribute that is neither a written key nor the paired comment of a written key is
  left as it was by the loop of \<^verbatim>\<open>write_headers\<close>.
\<close>

lemma write_headers_frame:
  "\<forall>u \<in> fst ` set items. \<not> is_restricted rt rh u \<longrightarrow> x \<noteq> u \<and> x \<noteq> u @ ''_COMMENT''
   \<Longrightarrow> map_of (fold (write_header_entry rt rh hdr) items a) x = map_of a x"
proof (induction items arbitrary: a)
  case Nil
  then show ?case by simp
next
  case (Cons kv items)
  then show ?case
    by (auto simp: write_header_entry_def Let_def map_of_setitem)
qed





section \<open>Writing a header and reading it back\<close>

lemma with_comments_Nil: "with_comments [] = []"
  by (simp add: with_comments_def)

lemma with_comments_Cons:
  "with_comments ((k, v) # hdr) = (k, v) # (k @ ''_COMMENT'', Txt []) # with_comments hdr"
  by (simp add: with_comments_def)

lemma keys_with_comments:
  "fst ` set (with_comments hdr) = fst ` set hdr \<union> (\<lambda>k. k @ ''_COMMENT'') ` fst ` set hdr"
proof (induction hdr)
  case Nil
  show ?case by (simp add: with_comments_Nil)
next
  case (Cons kv hdr)
  obtain k v where kv: "kv = (k, v)" by (cases kv)
  show ?case unfolding kv with_comments_Cons using Cons.IH by auto
qed

lemma header_comment_absent:
  assumes "\<forall>k \<in> fst ` set hdr. \<not> is_restricted rt rh k"
  shows "header_comment hdr k = Txt ''''"
proof -
  have "k @ ''_COMMENT'' \<notin> fst ` set hdr"
    using assms restricted_comment[of rt rh k] by blast
  then have "map_of hdr (k @ ''_COMMENT'') = None"
    by (simp add: map_of_eq_None_iff)
  then show ?thesis by (simp add: header_comment_def)
qed

text \<open>Keys that are all written, onto attributes that hold none of them, are appended.\<close>

lemma write_fresh:
  assumes "\<forall>k \<in> fst ` set items. \<not> is_restricted rt rh k \<and> header_comment hdr k = Txt ''''"
    and "distinct (map fst items)"
    and "fst ` set a \<inter> fst ` set (with_comments items) = {}"
  shows "fold (write_header_entry rt rh hdr) items a
           = a @ map (\<lambda>(k, v). (k, [v])) (with_comments items)"
  using assms
proof (induction items arbitrary: a)
  case Nil
  then show ?case by (simp add: with_comments_Nil)
next
  case (Cons kv items)
  obtain k v where kv: "kv = (k, v)" by (cases kv)
  let ?c = "k @ ''_COMMENT''"
  have nr: "\<not> is_restricted rt rh k" and hc: "header_comment hdr k = Txt ''''"
    using Cons.prems(1) kv by auto
  have fresh_k: "k \<notin> fst ` set a" and fresh_c: "?c \<notin> fst ` set a"
    using Cons.prems(3) kv by (auto simp: with_comments_Cons)
  let ?a' = "a @ [(k, [v]), (?c, [Txt ''''])]"
  have step: "write_header_entry rt rh hdr kv a = ?a'"
    using nr hc fresh_k fresh_c kv
    by (simp add: write_header_entry_def Let_def setitem_fresh)
  have k_items: "k \<notin> fst ` set items"
    using Cons.prems(2) kv by (auto simp: image_iff)
  have c_items: "?c \<notin> fst ` set items"
    using Cons.prems(1) restricted_comment[of rt rh k] by auto
  have k_cm: "k \<notin> (\<lambda>k. k @ ''_COMMENT'') ` fst ` set items"
    using nr restricted_comment[of rt rh] by auto
  have c_cm: "?c \<notin> (\<lambda>k. k @ ''_COMMENT'') ` fst ` set items"
    using k_items by auto
  have disj: "fst ` set ?a' \<inter> fst ` set (with_comments items) = {}"
    using Cons.prems(3) k_items c_items k_cm c_cm kv
    unfolding keys_with_comments by (auto simp: image_Un)
  have "fold (write_header_entry rt rh hdr) items ?a'
          = ?a' @ map (\<lambda>(k, v). (k, [v])) (with_comments items)"
    using Cons.prems by (intro Cons.IH disj) auto
  then show ?case
    using step kv by (simp add: with_comments_Cons)
qed

lemma read_fresh:
  assumes "distinct (map fst xs)"
    and "fst ` set xs \<inter> fst ` set acc = {}"
    and "fst ` set xs \<inter> restricted_hdf_keywords = {}"
  shows "read_header (map (\<lambda>(k, v). (k, [v])) xs) acc = Inr (acc @ xs)"
  using assms
proof (induction xs arbitrary: acc)
  case Nil
  then show ?case by simp
next
  case (Cons x xs)
  obtain k v where x: "x = (k, v)" by (cases x)
  have "k \<notin> fst ` set acc" using Cons.prems(2) x by auto
  then have s: "setitem k v acc = acc @ [(k, v)]" by (rule setitem_fresh)
  have "read_header (map (\<lambda>(k, v). (k, [v])) xs) (acc @ [(k, v)]) = Inr ((acc @ [(k, v)]) @ xs)"
    using Cons.prems x by (intro Cons.IH) (auto simp: image_iff)
  then show ?case
    using Cons.prems(3) x s by (simp add: first_elem_def)
qed

lemma distinct_with_comments:
  assumes "distinct (map fst hdr)" and "\<forall>k \<in> fst ` set hdr. \<not> is_restricted rt rh k"
  shows "distinct (map fst (with_comments hdr))"
  using assms
proof (induction hdr)
  case Nil
  then show ?case by (simp add: with_comments_Nil)
next
  case (Cons kv hdr)
  obtain k v where kv: "kv = (k, v)" by (cases kv)
  have ih: "distinct (map fst (with_comments hdr))" using Cons by simp
  have a: "k \<notin> fst ` set (with_comments hdr)"
    unfolding keys_with_comments
    using Cons.prems kv restricted_comment[of rt rh] by (auto simp: image_iff)
  have b: "k @ ''_COMMENT'' \<notin> fst ` set (with_comments hdr)"
    unfolding keys_with_comments
    using Cons.prems kv restricted_comment[of rt rh k] by (auto simp: image_iff)
  show ?case using ih a b kv by (simp add: with_comments_Cons)
qed

text \<open>Writing the header onto the tags of a new group, and reading the attributes back.\<close>

lemma written_header_read_back:
  assumes "distinct (map fst hdr)"
    and "\<forall>k \<in> fst ` set hdr. \<not> is_restricted rt rh k"
  shows "read_header
           (write_headers rt rh hdr [(''CLASS'', [Txt ''HDU'']), (''POSITION'', [Num p])]) []
         = Inr (with_comments hdr)"
proof -
  let ?a0 = "[(''CLASS'', [Txt ''HDU'']), (''POSITION'', [Num p])]"
  have nohdf: "fst ` set (with_comments hdr) \<inter> restricted_hdf_keywords = {}"
    unfolding keys_with_comments
    using assms(2) restricted_hdf[of _ rt rh] comment_not_hdf
    by (auto simp: image_iff)
  have "fst ` set ?a0 \<subseteq> restricted_hdf_keywords"
    by (simp add: restricted_hdf_keywords_def)
  then have disj: "fst ` set ?a0 \<inter> fst ` set (with_comments hdr) = {}"
    using nohdf by blast
  have w: "write_headers rt rh hdr ?a0 = ?a0 @ map (\<lambda>(k, v). (k, [v])) (with_comments hdr)"
    unfolding write_headers_def
    using assms header_comment_absent[OF assms(2)] disj by (intro write_fresh) auto
  have r: "read_header (map (\<lambda>(k, v). (k, [v])) (with_comments hdr)) []
             = Inr ([] @ with_comments hdr)"
    using distinct_with_comments[OF assms] nohdf by (intro read_fresh) auto
  show ?thesis
    unfolding w using r by (simp add: restricted_hdf_keywords_def)
qed



text \<open>
  The same through the whole of \<^verbatim>\<open>export_hdf\<close> and \<^verbatim>\<open>read_hdf\<close>, for a list of one
  Primary unit without comment and history: the unit comes back with the header above.
\<close>

lemma position_kept:
  "map_of (write_headers rt rh hdr [(''CLASS'', [Txt ''HDU'']), (''POSITION'', [Num p])]) ''POSITION''
     = Some [Num p]"
proof -
  have "map_of (write_headers rt rh hdr [(''CLASS'', [Txt ''HDU'']), (''POSITION'', [Num p])]) ''POSITION''
          = map_of [(''CLASS'', [Txt ''HDU'']), (''POSITION'', [Num p])] ''POSITION''"
    unfolding write_headers_def
    using restricted_hdf[of "''POSITION''" rt rh] comment_not_hdf
    by (intro write_headers_frame) (auto simp: restricted_hdf_keywords_def)
  then show ?thesis by simp
qed

lemma roundtrip_header_primary:
  assumes "distinct (map fst (hdu_header u))"
    and "\<forall>k \<in> fst ` set (hdu_header u). \<not> is_restricted rt rh k"
    and "hdu_payload u = Primary" and "hdu_comment u = None" and "hdu_history u = None"
    and "native [g] = [g]"
  shows "rd_result (read_hdf native
            (ex_fs (export_hdf rt rh (IdiHdulist [(g, u)]) fs outfile)) outfile)
         = Inr [(g, u\<lparr>hdu_header := with_comments (hdu_header u)\<rparr>)]"
proof -
  let ?a = "write_headers rt rh (hdu_header u) [(''CLASS'', [Txt ''HDU'']), (''POSITION'', [Num 1])]"
  let ?h = "\<lparr>file_attrs = [(''CLASS'', [Txt ''HDFITS''])], file_children = [(g, Group ?a [])]\<rparr>"
  have ex: "ex_fs (export_hdf rt rh (IdiHdulist [(g, u)]) fs outfile) outfile = Some ?h"
    using assms(3,4,5)
    by (simp add: export_hdf_def new_file_def write_hdu_def write_text_def Let_def)
  have rh: "read_header ?a [] = Inr (with_comments (hdu_header u))"
    using written_header_read_back[OF assms(1,2), of 1] .
  have u: "\<lparr>hdu_header = with_comments (hdu_header u), hdu_comment = None, hdu_history = None,
            hdu_payload = Primary\<rparr> = u\<lparr>hdu_header := with_comments (hdu_header u)\<rparr>"
    using assms(3,4,5) by simp
  show ?thesis
    using ex rh u assms(6) position_kept[of rt rh "hdu_header u" 1]
    by (simp add: read_hdf_def check_class_def getitem_def first_elem_def read_group_def
        dispatch_data_def add_hdu_def)
qed

section \<open>The type check and the destination file of export_hdf\<close>

text \<open>
  C9 (export type precondition). For an argument that is not an IdiHdulist the call
  raises the RuntimeError at once: no file is opened and the file system is as it was,
  in particular nothing is created or truncated at \<open>outfile\<close>.
\<close>

theorem export_type_precondition:
  "export_hdf rt rh OtherObject fs outfile =
     \<lparr>ex_fs = fs, ex_handle = NotOpened,
      ex_result = Inl (RuntimeError ''This function must be run on an IdiHdulist object'')\<rparr>"
  by (simp add: export_hdf_def)

text \<open>
  C10 (destination truncation). For an IdiHdulist the file at \<open>outfile\<close> after the call is
  the container written from the empty file that carries the format tag, whatever the
  file system held at \<open>outfile\<close> before and whether the export completed or failed on
  the way; every other path is untouched.
\<close>

theorem export_truncates_destination:
  "ex_fs (export_hdf rt rh (IdiHdulist units) fs outfile) =
     fs(outfile \<mapsto> fst (write_hdus rt rh units 0
          \<lparr>file_attrs = [(''CLASS'', [Txt ''HDFITS''])], file_children = []\<rparr>))"
  by (simp add: export_hdf_def Let_def new_file_def split: prod.splits sum.splits)

section \<open>The range attribute of an image\<close>



text \<open>
  An image with two axes and no element (a shape such as 0 by 3) has no minimum: the
  export raises the ValueError of \<^verbatim>\<open>np.min\<close> after the grayscale tag was written.
\<close>

lemma write_image_empty:
  "length (shape a) = 2 \<Longrightarrow> elems a = [] \<Longrightarrow> snd (write_image (Numeric a)) = Inl ValueError"
  by (simp add: write_image_def create_dataset_def)




section \<open>A group without a position tag\<close>





section \<open>A data node of an unknown class\<close>

text \<open>
  C6, the claim as stated fails: in the container \<open>foo_file\<close> the DATA node of the unit
  SRC1 has the class FOO. \<^verbatim>\<open>read_hdf\<close> emits the warning, attaches no unit, and then
  raises the KeyError of \<^verbatim>\<open>hdulist[gname]\<close>: no list is returned, and the header of SRC1
  is lost with it.
\<close>

theorem unknown_class_counterexample:
  "read_hdf id [''in.h5'' \<mapsto> foo_file] ''in.h5'' =
     \<lparr>rd_warnings = [''Cannot understand data class of SRC1''], rd_handle = Opened,
      rd_result = Inl (KeyError ''SRC1'')\<rparr>"
  by (simp add: read_hdf_def foo_file_def check_class_def getitem_def first_elem_def
      read_group_def dispatch_data_def restricted_hdf_keywords_def)

text \<open>
  C6 (unknown data class), amended. For a group whose DATA node carries a class tag
  other than TABLE, DATA_GROUP and IMAGE, the dispatch of \<^verbatim>\<open>read_hdf\<close> emits the warning
  \<^verbatim>\<open>Cannot understand data class of <name>\<close> and attaches no unit for the group: the unit
  list stays as it was, and the header, comment and history that were read for the group
  are not attached to it.
\<close>

theorem unknown_class_warns_no_unit:
  assumes "map_of cs ''DATA'' = Some dnode"
    and "map_of (node_attrs dnode) ''CLASS'' = Some [c]"
    and "c \<noteq> Txt ''TABLE''" and "c \<noteq> Txt ''DATA_GROUP''" and "c \<noteq> Txt ''IMAGE''"
  shows "dispatch_data native gname cs h_vals h_history h_comment ws hdulist
           = (ws @ [''Cannot understand data class of '' @ gname], Inr hdulist)"
  using assms by (simp add: dispatch_data_def getitem_def)

theorem unknown_class_warns_no_unit_witness:
  "map_of [(''DATA'', Dataset [(''CLASS'', [Txt ''FOO''])] (Numeric \<lparr>shape = [3], elems = [1, 2, 3]\<rparr>))]
       ''DATA'' = Some (Dataset [(''CLASS'', [Txt ''FOO''])] (Numeric \<lparr>shape = [3], elems = [1, 2, 3]\<rparr>))
   \<and> map_of (node_attrs (Dataset [(''CLASS'', [Txt ''FOO''])] (Numeric \<lparr>shape = [3], elems = [1, 2, 3]\<rparr>)))
       ''CLASS'' = Some [Txt ''FOO'']
   \<and> Txt ''FOO'' \<noteq> Txt ''TABLE'' \<and> Txt ''FOO'' \<noteq> Txt ''DATA_GROUP'' \<and> Txt ''FOO'' \<noteq> Txt ''IMAGE''
   \<and> dispatch_data id ''SRC1''
        [(''DATA'', Dataset [(''CLASS'', [Txt ''FOO''])] (Numeric \<lparr>shape = [3], elems = [1, 2, 3]\<rparr>))]
        [(''OBSERVER'', Txt ''Smith'')] None None [] []
      = ([''Cannot understand data class of SRC1''], Inr [])"
proof -
  let ?d = "Dataset [(''CLASS'', [Txt ''FOO''])] (Numeric \<lparr>shape = [3], elems = [1, 2, 3]\<rparr>)"
  have a: "map_of [(''DATA'', ?d)] ''DATA'' = Some ?d" by simp
  have b: "map_of (node_attrs ?d) ''CLASS'' = Some [Txt ''FOO'']" by simp
  have c1: "Txt ''FOO'' \<noteq> Txt ''TABLE''" and c2: "Txt ''FOO'' \<noteq> Txt ''DATA_GROUP''"
    and c3: "Txt ''FOO'' \<noteq> Txt ''IMAGE''" by simp_all
  show ?thesis
    using a b c1 c2 c3
      unknown_class_warns_no_unit [OF a b c1 c2 c3, of id "''SRC1''" "[(''OBSERVER'', Txt ''Smith'')]"
         None None "[]" "[]"]
    by simp
qed

section \<open>The file handle\<close>

text \<open>
  C7, the claim as stated fails: the read of \<open>foreign_file\<close> raises with the handle open,
  and so does the export of an image of shape 0 by 3, whose minimum does not exist.
\<close>

theorem handle_left_open_counterexample:
  "rd_handle (read_hdf id [''in.h5'' \<mapsto> foreign_file] ''in.h5'') = Opened
   \<and> rd_result (read_hdf id [''in.h5'' \<mapsto> foreign_file] ''in.h5'') = Inl (KeyError ''POSITION'')
   \<and> ex_handle (export_hdf {} {} (IdiHdulist [(''IMG'', empty_image)]) Map.empty ''out.h5'') = Opened
   \<and> ex_result (export_hdf {} {} (IdiHdulist [(''IMG'', empty_image)]) Map.empty ''out.h5'')
        = Inl ValueError"
  by (simp add: read_hdf_def foreign_file_def check_class_def getitem_def first_elem_def
      export_hdf_def new_file_def write_hdu_def write_image_def create_dataset_def
      empty_image_def Let_def)

text \<open>
  C7 (resource release), amended. The handle that \<^verbatim>\<open>read_hdf\<close> or \<^verbatim>\<open>export_hdf\<close> opens is
  closed when the call completes normally, and only then: when the call raises after the
  file was opened, the handle is left open (when it raises before, on a missing input
  file or on the type check of the export, no handle was opened).
\<close>

theorem handle_closed_only_on_success:
  "rd_handle (read_hdf native fs infile) =
     (case rd_result (read_hdf native fs infile) of
        Inr l \<Rightarrow> Closed
      | Inl e \<Rightarrow> if fs infile = None then NotOpened else Opened)
   \<and> ex_handle (export_hdf rt rh obj fs outfile) =
     (case ex_result (export_hdf rt rh obj fs outfile) of
        Inr u \<Rightarrow> Closed
      | Inl e \<Rightarrow> if obj = OtherObject then NotOpened else Opened)"
proof
  show "rd_handle (read_hdf native fs infile) =
     (case rd_result (read_hdf native fs infile) of
        Inr l \<Rightarrow> Closed
      | Inl e \<Rightarrow> if fs infile = None then NotOpened else Opened)"
    by (simp add: read_hdf_def split: option.splits prod.splits sum.splits)
  show "ex_handle (export_hdf rt rh obj fs outfile) =
     (case ex_result (export_hdf rt rh obj fs outfile) of
        Inr u \<Rightarrow> Closed
      | Inl e \<Rightarrow> if obj = OtherObject then NotOpened else Opened)"
    by (simp add: export_hdf_def Let_def split: pyobj.splits prod.splits sum.splits)
qed

section \<open>The order of units and columns after a round trip\<close>

text \<open>
  What the reader does with the tags. When the listed children carry distinct tags, the
  dict of the order loop holds them in the order of the listing, and a read that succeeds
  attaches one unit per item of the dict, at the end of the list: the units come back in
  the order in which the container lists its groups, for every container. The columns of
  a per-column table come back in the order in which the DATA group lists its datasets.
\<close>

lemma tag_order_listing:
  assumes "distinct (map pos names)"
    and "\<forall>n \<in> set names. \<exists>nd vs. map_of cs n = Some nd
            \<and> map_of (node_attrs nd) tag = Some (pos n # vs)"
    and "pos ` set names \<inter> fst ` set acc = {}"
  shows "tag_order tag cs names acc = Inr (acc @ map (\<lambda>n. (pos n, n)) names)"
  using assms
proof (induction names arbitrary: acc)
  case Nil
  then show ?case by simp
next
  case (Cons n names)
  obtain nd vs where nd: "map_of cs n = Some nd" "map_of (node_attrs nd) tag = Some (pos n # vs)"
    using Cons.prems(2) by auto
  have fresh: "pos n \<notin> fst ` set acc" using Cons.prems(3) by auto
  have "tag_order tag cs names (acc @ [(pos n, n)])
          = Inr ((acc @ [(pos n, n)]) @ map (\<lambda>n. (pos n, n)) names)"
    using Cons.prems by (intro Cons.IH) (auto simp: image_iff)
  then show ?case
    using nd fresh by (simp add: getitem_def first_elem_def setitem_fresh)
qed

lemma read_group_names:
  assumes "read_group native groups g ws hl = (ws', Inr hl')" and "g \<notin> fst ` set hl"
  shows "map fst hl' = map fst hl @ [g]"
proof -
  have "map_of hl g = None" using assms(2) by (simp add: map_of_eq_None_iff)
  then have miss: "getitem hl g = Inl (KeyError g)"
    by (simp add: getitem_def)
  show ?thesis
    using assms miss
    by (auto simp: read_group_def dispatch_data_def add_hdu_def setitem_fresh Let_def
        split: sum.splits option.splits prod.splits if_splits)
qed

lemma read_groups_names:
  assumes "read_groups native groups order ws hl = (ws', Inr hl')"
    and "distinct (map snd order)" and "snd ` set order \<inter> fst ` set hl = {}"
  shows "map fst hl' = map fst hl @ map snd order"
  using assms
proof (induction order arbitrary: ws hl)
  case Nil
  then show ?case by simp
next
  case (Cons pg order)
  obtain p g where pg: "pg = (p, g)" by (cases pg)
  obtain ws1 r1 where r1: "read_group native groups g ws hl = (ws1, r1)"
    by (cases "read_group native groups g ws hl")
  obtain hl1 where hl1: "r1 = Inr hl1"
    using Cons.prems(1) pg r1 by (cases r1) auto
  have g: "g \<notin> fst ` set hl" using Cons.prems(3) pg by auto
  have n1: "map fst hl1 = map fst hl @ [g]"
    using read_group_names[OF r1[unfolded hl1] g] .
  have rest: "read_groups native groups order ws1 hl1 = (ws', Inr hl')"
    using Cons.prems(1) pg r1 hl1 by simp
  have d: "snd ` set order \<inter> fst ` set hl1 = {}"
  proof -
    have "set (map fst hl1) = set (map fst hl @ [g])" using n1 by simp
    then have "fst ` set hl1 = fst ` set hl \<union> {g}" by simp
    then show ?thesis using Cons.prems(2,3) pg by (auto simp: image_iff)
  qed
  have "map fst hl' = map fst hl1 @ map snd order"
    using Cons.prems(2) by (intro Cons.IH[OF rest _ d]) simp
  then show ?case using n1 pg by simp
qed

lemma read_hdf_listing_order:
  assumes "fs infile = Some h"
    and "rd_result (read_hdf native fs infile) = Inr l"
    and "distinct (native (map fst (file_children h)))"
    and "inj_on pos (set (native (map fst (file_children h))))"
    and "\<forall>n \<in> set (native (map fst (file_children h))). \<exists>nd vs.
           map_of (file_children h) n = Some nd
           \<and> map_of (node_attrs nd) ''POSITION'' = Some (pos n # vs)"
  shows "map fst l = native (map fst (file_children h))"
proof -
  let ?names = "native (map fst (file_children h))"
  have dp: "distinct (map pos ?names)"
    using assms(3,4) by (simp add: distinct_map)
  have ord: "tag_order ''POSITION'' (file_children h) ?names [] = Inr (map (\<lambda>n. (pos n, n)) ?names)"
    using tag_order_listing[OF dp assms(5), of "[]"] by simp
  obtain ws r where c: "check_class (file_attrs h) = (ws, r)" by (cases "check_class (file_attrs h)")
  obtain ws' where rg: "read_groups native (file_children h) (map (\<lambda>n. (pos n, n)) ?names) ws [] = (ws', Inr l)"
    using assms(1,2) ord c
    by (auto simp: read_hdf_def split: sum.splits prod.splits)
  have d: "distinct (map snd (map (\<lambda>n. (pos n, n)) ?names))"
    using assms(3) by (simp add: comp_def)
  have e: "snd ` set (map (\<lambda>n. (pos n, n)) ?names) \<inter> fst ` set ([] :: hdulist) = {}"
    by simp
  show ?thesis
    using read_groups_names[OF rg d e] by (simp add: comp_def)
qed

lemma read_columns_names:
  assumes "read_columns cs order data = Inr data'"
  shows "map fst data' = map fst data @ map snd order"
  using assms
proof (induction order arbitrary: data)
  case Nil
  then show ?case by simp
next
  case (Cons pc order)
  obtain p c where pc: "pc = (p, c)" by (cases pc)
  obtain d1 where d1: "read_columns cs order d1 = Inr data'" "map fst d1 = map fst data @ [c]"
    using Cons.prems pc
    by (auto simp: add_column_def Let_def split: sum.splits if_splits)
  show ?case using Cons.IH[OF d1(1)] d1(2) pc by simp
qed

lemma read_data_group_listing_order:
  assumes "read_data_group native (Group a cs) = Inr data"
    and "distinct (native (map fst cs))"
    and "inj_on pos (set (native (map fst cs)))"
    and "\<forall>n \<in> set (native (map fst cs)). \<exists>nd vs.
           map_of cs n = Some nd \<and> map_of (node_attrs nd) ''COLUMN_ID'' = Some (pos n # vs)"
  shows "map fst data = native (map fst cs)"
proof -
  let ?names = "native (map fst cs)"
  have dp: "distinct (map pos ?names)"
    using assms(2,3) by (simp add: distinct_map)
  have ord: "tag_order ''COLUMN_ID'' cs ?names [] = Inr (map (\<lambda>n. (pos n, n)) ?names)"
    using tag_order_listing[OF dp assms(4), of "[]"] by simp
  have "read_columns cs (map (\<lambda>n. (pos n, n)) ?names) [] = Inr data"
    using assms(1) ord by (simp add: read_data_group_def)
  then show ?thesis
    using read_columns_names by (fastforce simp: comp_def)
qed



end
